theory Spec2Isabelle
  imports Main "HOL-Library.Char_ord" "HOL-Library.List_Lexorder"
begin

section \<open>Exceptions\<close>

text \<open>
  Every exception the modelled code can raise is a value. A function that can raise returns
  \<open>error + 'a\<close>, with \<open>Inl\<close> for the exception. \<open>HTTPException\<close> carries the status
  code and the detail string the controllers give it. \<open>ValidationError\<close> is pydantic's,
  a subclass of \<open>ValueError\<close>; \<open>MultipleResultsFound\<close>, \<open>IntegrityError\<close> and \<open>DataError\<close>
  are SQLAlchemy's.
\<close>

datatype error =
    TypeError
  | ValueError string
  | ValidationError
  | MultipleResultsFound
  | IntegrityError
  | DataError
  | HTTPException nat string

section \<open>Task data model\<close>

text \<open>
  \<open>todo_service/enums/todo_priority.py\<close> and \<open>todo_service/enums/attribute_types.py\<close>
  are imported by the sources but are not among them.
\<close>

text \<open>
  Modelled from the spec: the \<open>Priority\<close> enum (section 3: LOW | MEDIUM | HIGH). The service
  builds a member with \<open>Priority(attr_value.upper())\<close>, a lookup by value, so the values are
  taken to be the upper-case member names.
\<close>

datatype Priority = LOW | MEDIUM | HIGH

fun Priority_value :: "Priority \<Rightarrow> string" where
  "Priority_value LOW = ''LOW''"
| "Priority_value MEDIUM = ''MEDIUM''"
| "Priority_value HIGH = ''HIGH''"

text \<open>\<open>Priority(v)\<close>: the member whose value is \<open>v\<close>, or \<open>ValueError\<close> (here \<open>None\<close>).\<close>

definition Priority_of_value :: "string \<Rightarrow> Priority option" where
  "Priority_of_value v =
     (if v = ''LOW'' then Some LOW
      else if v = ''MEDIUM'' then Some MEDIUM
      else if v = ''HIGH'' then Some HIGH
      else None)"

text \<open>
  Modelled from the spec: the ordering of two priorities is the enum ordinal (section 4.3).
\<close>

fun Priority_ordinal :: "Priority \<Rightarrow> nat" where
  "Priority_ordinal LOW = 0"
| "Priority_ordinal MEDIUM = 1"
| "Priority_ordinal HIGH = 2"

text \<open>Modelled from the spec: the search types (section 4.4: ID | TITLE | PRIORITY).\<close>

datatype AttributeTypes = ID | TITLE | PRIORITY

text \<open>
  \<open>MockTodoEntity\<close> and \<open>TodoEntity\<close> declare the same five attributes, and one record
  stands for both. \<open>description\<close> is \<open>Optional[str]\<close> in the mock entity and in the boundary.
\<close>

record TodoEntity =
  ent_id :: string
  ent_title :: string
  ent_description :: "string option"
  ent_status :: string
  ent_priority :: Priority

record TodoBoundary =
  b_id :: string
  b_title :: string
  b_description :: "string option"
  b_status :: string
  b_priority :: Priority

text \<open>
  \<open>Pagination.order_by\<close> is a \<open>Literal\<close> of four attribute names; \<open>page\<close> and \<open>size\<close> are
  Python integers with \<open>gt=0\<close> (the field \<open>size\<close> is \<open>page_size\<close> here).
\<close>

datatype OrderBy = title | description | status | priority

record Pagination =
  page :: int
  page_size :: int
  order_by :: OrderBy
  desc :: bool

record SearchByPagination = Pagination +
  search_type :: AttributeTypes
  search_value :: string

definition Pagination_valid :: "'a Pagination_scheme \<Rightarrow> bool" where
  "Pagination_valid p = (0 < page p \<and> 0 < page_size p)"

definition offset :: "'a Pagination_scheme \<Rightarrow> int" where
  "offset p = (page p - 1) * page_size p"

section \<open>Python values, slices and sorting\<close>

text \<open>The value of an attribute read with \<open>getattr\<close>.\<close>

datatype py_value = Str string | NoneVal | Prio Priority

fun getattr :: "TodoEntity \<Rightarrow> OrderBy \<Rightarrow> py_value" where
  "getattr obj title = Str (ent_title obj)"
| "getattr obj description =
     (case ent_description obj of None \<Rightarrow> NoneVal | Some d \<Rightarrow> Str d)"
| "getattr obj status = Str (ent_status obj)"
| "getattr obj priority = Prio (ent_priority obj)"

text \<open>
  \<open>xs[a:b]\<close>: a negative index counts from the end, and both ends are clamped to the list.
\<close>

definition slice_index :: "int \<Rightarrow> nat \<Rightarrow> nat" where
  "slice_index i n = (if i < 0 then nat (max 0 (i + int n)) else min (nat i) n)"

definition py_slice :: "'a list \<Rightarrow> int \<Rightarrow> int \<Rightarrow> 'a list" where
  "py_slice xs a b =
     (let lo = slice_index a (length xs); hi = slice_index b (length xs)
      in take (hi - lo) (drop lo xs))"

text \<open>
  The order of two attribute values of one kind: strings by code point, lexicographically
  (a proper prefix is smaller); priorities by ordinal. The rank of a value is a list of
  numbers that are compared lexicographically.
\<close>

fun rank :: "py_value \<Rightarrow> nat list" where
  "rank (Str s) = map of_char s"
| "rank NoneVal = []"
| "rank (Prio p) = [Priority_ordinal p]"

text \<open>
  A stable sort by key; \<open>reverse\<close> keeps the original order of equal keys, as Python's
  \<open>sorted(..., reverse=True)\<close> does.
\<close>

definition stable_sort :: "('a \<Rightarrow> py_value) \<Rightarrow> bool \<Rightarrow> 'a list \<Rightarrow> 'a list" where
  "stable_sort key reverse xs =
     (if reverse then rev (sort_key (\<lambda>x. rank (key x)) (rev xs))
      else sort_key (\<lambda>x. rank (key x)) xs)"

text \<open>
  \<open>sorted(xs, key=..., reverse=...)\<close>. Sorting two or more items compares every item with
  another one, and \<open>None\<close> compares with nothing: \<open>TypeError\<close>.
\<close>

definition sorted_py :: "('a \<Rightarrow> py_value) \<Rightarrow> bool \<Rightarrow> 'a list \<Rightarrow> error + 'a list" where
  "sorted_py key reverse xs =
     (if 2 \<le> length xs \<and> NoneVal \<in> set (map key xs) then Inl TypeError
      else Inr (stable_sort key reverse xs))"

text \<open>\<open>[f(x) for x in xs]\<close> where \<open>f\<close> can raise: the first exception ends the loop.\<close>

fun map_result :: "('a \<Rightarrow> error + 'b) \<Rightarrow> 'a list \<Rightarrow> error + 'b list" where
  "map_result f [] = Inr []"
| "map_result f (x # xs) =
     (case f x of
        Inl e \<Rightarrow> Inl e
      | Inr y \<Rightarrow> (case map_result f xs of Inl e \<Rightarrow> Inl e | Inr ys \<Rightarrow> Inr (y # ys)))"

section \<open>TodoBoundary\<close>

text \<open>
  \<open>TodoBoundary.from_entity\<close> validates the entity's attributes against the boundary's
  fields; \<open>title\<close> has \<open>min_length=1\<close>.
\<close>

definition from_entity :: "TodoEntity \<Rightarrow> error + TodoBoundary" where
  "from_entity todo_entity =
     (if ent_title todo_entity = [] then Inl ValidationError
      else Inr \<lparr>b_id = ent_id todo_entity, b_title = ent_title todo_entity,
                b_description = ent_description todo_entity,
                b_status = ent_status todo_entity,
                b_priority = ent_priority todo_entity\<rparr>)"

text \<open>
  A request body for \<open>TodoBoundary\<close>: each field is present or absent, and a present
  \<open>description\<close> may be \<open>null\<close>. Validation requires \<open>id\<close> and a non-empty \<open>title\<close> and
  gives an absent field its default: \<open>""\<close>, \<open>"Pending"\<close>, \<open>Priority.LOW\<close>.
\<close>

record TodoPayload =
  pl_id :: "string option"
  pl_title :: "string option"
  pl_description :: "string option option"
  pl_status :: "string option"
  pl_priority :: "Priority option"

definition TodoBoundary_validate :: "TodoPayload \<Rightarrow> error + TodoBoundary" where
  "TodoBoundary_validate pl =
     (case pl_id pl of
        None \<Rightarrow> Inl ValidationError
      | Some i \<Rightarrow>
          (case pl_title pl of
             None \<Rightarrow> Inl ValidationError
           | Some t \<Rightarrow>
               if t = [] then Inl ValidationError
               else Inr \<lparr>b_id = i, b_title = t,
                         b_description = (case pl_description pl of None \<Rightarrow> Some [] | Some d \<Rightarrow> d),
                         b_status = (case pl_status pl of None \<Rightarrow> ''Pending'' | Some s \<Rightarrow> s),
                         b_priority = (case pl_priority pl of None \<Rightarrow> LOW | Some p \<Rightarrow> p)\<rparr>))"

section \<open>MockTodoService: the read operations\<close>

text \<open>
  \<open>todo_dao\<close> is the list of entities. The simulated delay (\<open>asyncio.sleep\<close>) has no effect
  on the result and is left out.
\<close>

definition mock_get_all_todos ::
  "TodoEntity list \<Rightarrow> 'a Pagination_scheme \<Rightarrow> error + TodoBoundary list" where
  "mock_get_all_todos todo_dao pagination_query =
     (case sorted_py (\<lambda>obj. getattr obj (order_by pagination_query)) (desc pagination_query)
             (py_slice todo_dao (offset pagination_query)
                (offset pagination_query + page_size pagination_query)) of
        Inl e \<Rightarrow> Inl e
      | Inr todo_entities \<Rightarrow> map_result from_entity todo_entities)"

text \<open>
  \<open>get_todo_by_id(self, attr_value)\<close> declares no further parameter: \<open>args\<close> are the
  positional arguments a caller passes after \<open>attr_value\<close>, and any such argument is a
  \<open>TypeError\<close> at the call. \<open>next(generator, None)\<close> converts the first match only.
\<close>

definition mock_get_todo_by_id ::
  "TodoEntity list \<Rightarrow> string \<Rightarrow> 'b list \<Rightarrow> error + TodoBoundary option" where
  "mock_get_todo_by_id todo_dao attr_value args =
     (if args \<noteq> [] then Inl TypeError
      else (case filter (\<lambda>todo_entity. ent_id todo_entity = attr_value) todo_dao of
              [] \<Rightarrow> Inr None
            | todo_entity # _ \<Rightarrow>
                (case from_entity todo_entity of Inl e \<Rightarrow> Inl e | Inr b \<Rightarrow> Inr (Some b))))"

definition mock_get_todo_by_title ::
  "TodoEntity list \<Rightarrow> string \<Rightarrow> 'a Pagination_scheme \<Rightarrow> error + TodoBoundary list" where
  "mock_get_todo_by_title todo_dao attr_value pagination_query =
     (case sorted_py (\<lambda>obj. getattr obj (order_by pagination_query)) (desc pagination_query)
             (py_slice (filter (\<lambda>entity. ent_title entity = attr_value) todo_dao)
                (offset pagination_query)
                (offset pagination_query + page_size pagination_query)) of
        Inl e \<Rightarrow> Inl e
      | Inr todo_entities \<Rightarrow> map_result from_entity todo_entities)"

text \<open>
  \<open>str.upper()\<close> on the letters a to z. A string here is a list of 8-bit characters,
  the code points 0 to 255. Of these only a to z have an upper-case form made of the
  letters of a value of \<open>Priority\<close>, so \<open>Priority(attr_value.upper())\<close> is the lookup
  below for every such string; on the other characters \<open>upper\<close> itself is not Python's
  (which turns the sharp s into SS). A Python string with a code point above 255 is not
  represented: U+0131, the dotless i, has the upper-case form I, so Python parses a
  spelling of "high" with it as HIGH.
\<close>

definition upper_char :: "char \<Rightarrow> char" where
  "upper_char c =
     (case map_of (zip ''abcdefghijklmnopqrstuvwxyz'' ''ABCDEFGHIJKLMNOPQRSTUVWXYZ'') c of
        None \<Rightarrow> c
      | Some u \<Rightarrow> u)"

definition upper :: "string \<Rightarrow> string" where
  "upper s = map upper_char s"

text \<open>The message of the \<open>ValueError\<close>; \<open>CHR 0x22\<close> is the double quote.\<close>

definition priority_message :: string where
  "priority_message =
     ''Priority can only be '' @ [CHR 0x22] @ ''low'' @ [CHR 0x22] @ '', '' @ [CHR 0x22]
       @ ''medium'' @ [CHR 0x22] @ '', or '' @ [CHR 0x22] @ ''high'' @ [CHR 0x22] @ ''.''"

definition mock_get_todo_by_priority ::
  "TodoEntity list \<Rightarrow> string \<Rightarrow> 'a Pagination_scheme \<Rightarrow> error + TodoBoundary list" where
  "mock_get_todo_by_priority todo_dao attr_value pagination_query =
     (case Priority_of_value (upper attr_value) of
        None \<Rightarrow> Inl (ValueError priority_message)
      | Some p \<Rightarrow>
          (case sorted_py (\<lambda>obj. getattr obj (order_by pagination_query)) (desc pagination_query)
                  (py_slice (filter (\<lambda>entity. ent_priority entity = p) todo_dao)
                     (offset pagination_query)
                     (offset pagination_query + page_size pagination_query)) of
             Inl e \<Rightarrow> Inl e
           | Inr todo_entities \<Rightarrow> map_result from_entity todo_entities))"

section \<open>TodoService: the read operations\<close>

text \<open>
  The durable service builds its queries with SQLAlchemy, which is not part of the
  repository. The table is the list of its rows in insertion order, and a query
  \<open>query(TodoEntity).where(w).order_by(k).offset(o).limit(l).all()\<close> selects the rows
  that satisfy \<open>w\<close>, orders them by the column (rows with equal keys keep their insertion
  order, the tiebreak of section 4.3 of the spec), skips \<open>o\<close> rows and returns at most
  \<open>l\<close>. The columns are NOT NULL (\<open>Mapped[str]\<close>), so no row has the rank of \<open>None\<close>.
\<close>

definition sql_select ::
  "(TodoEntity \<Rightarrow> bool) \<Rightarrow> OrderBy \<Rightarrow> bool \<Rightarrow> int \<Rightarrow> int \<Rightarrow> TodoEntity list \<Rightarrow> TodoEntity list" where
  "sql_select w k d off lim rows =
     take (nat lim) (drop (nat off) (stable_sort (\<lambda>row. getattr row k) d (filter w rows)))"

text \<open>\<open>Query.one_or_none()\<close>.\<close>

fun one_or_none :: "'a list \<Rightarrow> error + 'a option" where
  "one_or_none [] = Inr None"
| "one_or_none [x] = Inr (Some x)"
| "one_or_none (x # y # zs) = Inl MultipleResultsFound"

definition get_all_todos ::
  "TodoEntity list \<Rightarrow> 'a Pagination_scheme \<Rightarrow> error + TodoBoundary list" where
  "get_all_todos rows pagination_query =
     map_result from_entity
       (sql_select (\<lambda>row. True) (order_by pagination_query) (desc pagination_query)
          (offset pagination_query) (page_size pagination_query) rows)"

text \<open>\<open>get_todo_by_id(self, attr_value, *args)\<close>: further positional arguments are taken and unused.\<close>

definition get_todo_by_id ::
  "TodoEntity list \<Rightarrow> string \<Rightarrow> 'b list \<Rightarrow> error + TodoBoundary option" where
  "get_todo_by_id rows attr_value args =
     (case one_or_none (filter (\<lambda>row. ent_id row = attr_value) rows) of
        Inl e \<Rightarrow> Inl e
      | Inr None \<Rightarrow> Inr None
      | Inr (Some todo_entity) \<Rightarrow>
          (case from_entity todo_entity of Inl e \<Rightarrow> Inl e | Inr b \<Rightarrow> Inr (Some b)))"

definition get_todo_by_title ::
  "TodoEntity list \<Rightarrow> string \<Rightarrow> 'a Pagination_scheme \<Rightarrow> error + TodoBoundary list" where
  "get_todo_by_title rows attr_value pagination_query =
     map_result from_entity
       (sql_select (\<lambda>row. ent_title row = attr_value) (order_by pagination_query)
          (desc pagination_query) (offset pagination_query) (page_size pagination_query) rows)"

text \<open>
  \<open>where(TodoEntity.priority == attr_value)\<close> compares the column with the search string as
  it was given. An \<open>Enum(Priority)\<close> column stores the member's name, and a string that is
  no member's name is bound unchanged. What the comparison does then depends on the
  database behind \<open>DATABASE_URL\<close>, the parameter \<open>native_enum\<close>: where the column is a
  native enum type (PostgreSQL) the statement fails with \<open>DataError\<close> for a string that
  is no label of the type; where it is a character column the row matches when the
  stored name is the string.
\<close>

definition get_todo_by_priority ::
  "bool \<Rightarrow> TodoEntity list \<Rightarrow> string \<Rightarrow> 'a Pagination_scheme \<Rightarrow> error + TodoBoundary list" where
  "get_todo_by_priority native_enum rows attr_value pagination_query =
     (if native_enum \<and> Priority_of_value attr_value = None then Inl DataError
      else map_result from_entity
             (sql_select (\<lambda>row. Priority_value (ent_priority row) = attr_value)
                (order_by pagination_query) (desc pagination_query) (offset pagination_query)
                (page_size pagination_query) rows))"

section \<open>The search controller\<close>

text \<open>
  \<open>get_todo_by_attribute\<close> picks the service's method by the search type and calls it as
  \<open>method(attr_value, pagination_query)\<close>: the pagination is always passed, as the one
  positional argument after the value. \<open>DEV_ENVIRONMENT\<close> selects the mock service. The
  search type is validated into \<open>AttributeTypes\<close> before the controller runs, so the
  lookup in \<open>method_map\<close> always finds a method. \<open>except ValueError\<close> catches a
  \<open>ValueError\<close> and pydantic's \<open>ValidationError\<close>, its subclass, and raises status 400
  with the text of the exception in the detail; the result \<open>None\<close> becomes status 404, and
  any other exception leaves the controller as it is.
\<close>

datatype search_result = One TodoBoundary | Many "TodoBoundary list"

fun AttributeTypes_lower :: "AttributeTypes \<Rightarrow> string" where
  "AttributeTypes_lower ID = ''id''"
| "AttributeTypes_lower TITLE = ''title''"
| "AttributeTypes_lower PRIORITY = ''priority''"

text \<open>
  The text of a \<open>ValidationError\<close> of \<open>TodoBoundary\<close> is built by pydantic; its first line
  stands for it.
\<close>

definition validation_message :: string where
  "validation_message = ''1 validation error for TodoBoundary''"

definition call_method ::
  "bool \<Rightarrow> bool \<Rightarrow> TodoEntity list \<Rightarrow> AttributeTypes \<Rightarrow> string \<Rightarrow> SearchByPagination
     \<Rightarrow> error + search_result option" where
  "call_method DEV_ENVIRONMENT native_enum todo_dao attr_type attr_value pagination_query =
     (case attr_type of
        ID \<Rightarrow>
          (case (if DEV_ENVIRONMENT then mock_get_todo_by_id todo_dao attr_value [pagination_query]
                 else get_todo_by_id todo_dao attr_value [pagination_query]) of
             Inl e \<Rightarrow> Inl e
           | Inr None \<Rightarrow> Inr None
           | Inr (Some b) \<Rightarrow> Inr (Some (One b)))
      | TITLE \<Rightarrow>
          (case (if DEV_ENVIRONMENT then mock_get_todo_by_title todo_dao attr_value pagination_query
                 else get_todo_by_title todo_dao attr_value pagination_query) of
             Inl e \<Rightarrow> Inl e
           | Inr bs \<Rightarrow> Inr (Some (Many bs)))
      | PRIORITY \<Rightarrow>
          (case (if DEV_ENVIRONMENT then mock_get_todo_by_priority todo_dao attr_value pagination_query
                 else get_todo_by_priority native_enum todo_dao attr_value pagination_query) of
             Inl e \<Rightarrow> Inl e
           | Inr bs \<Rightarrow> Inr (Some (Many bs))))"

definition get_todo_by_attribute ::
  "bool \<Rightarrow> bool \<Rightarrow> TodoEntity list \<Rightarrow> SearchByPagination \<Rightarrow> error + search_result" where
  "get_todo_by_attribute DEV_ENVIRONMENT native_enum todo_dao pagination_query =
     (let attr_type = search_type pagination_query;
          attr_value = search_value pagination_query
      in case call_method DEV_ENVIRONMENT native_enum todo_dao attr_type attr_value
                pagination_query of
           Inl (ValueError msg) \<Rightarrow>
             Inl (HTTPException 400
                    (''Invalid input for attribute value: '' @ attr_value @ ''. '' @ msg))
         | Inl ValidationError \<Rightarrow>
             Inl (HTTPException 400
                    (''Invalid input for attribute value: '' @ attr_value @ ''. ''
                       @ validation_message))
         | Inl e \<Rightarrow> Inl e
         | Inr None \<Rightarrow>
             Inl (HTTPException 404
                    (''No task found matching '' @ AttributeTypes_lower attr_type @ ''=''
                       @ [CHR 0x27] @ attr_value @ [CHR 0x27] @ ''.''))
         | Inr (Some ret_value) \<Rightarrow> Inr ret_value)"

section \<open>Updating a task\<close>

text \<open>
  \<open>model_dump()\<close> is the dictionary of all five fields of the boundary, in declaration
  order. An item of the dictionary is a field with its value; \<open>field_key\<close> is its key.
\<close>

datatype field =
    F_id string
  | F_title string
  | F_description "string option"
  | F_status string
  | F_priority Priority

fun field_key :: "field \<Rightarrow> string" where
  "field_key (F_id v) = ''id''"
| "field_key (F_title v) = ''title''"
| "field_key (F_description v) = ''description''"
| "field_key (F_status v) = ''status''"
| "field_key (F_priority v) = ''priority''"

definition model_dump :: "TodoBoundary \<Rightarrow> field list" where
  "model_dump b =
     [F_id (b_id b), F_title (b_title b), F_description (b_description b),
      F_status (b_status b), F_priority (b_priority b)]"

text \<open>\<open>data.pop(key, None)\<close>: the dictionary without the key.\<close>

definition dict_pop :: "string \<Rightarrow> field list \<Rightarrow> field list" where
  "dict_pop k data = filter (\<lambda>item. field_key item \<noteq> k) data"

fun setattr :: "TodoEntity \<Rightarrow> field \<Rightarrow> TodoEntity" where
  "setattr self (F_id v) = self\<lparr>ent_id := v\<rparr>"
| "setattr self (F_title v) = self\<lparr>ent_title := v\<rparr>"
| "setattr self (F_description v) = self\<lparr>ent_description := v\<rparr>"
| "setattr self (F_status v) = self\<lparr>ent_status := v\<rparr>"
| "setattr self (F_priority v) = self\<lparr>ent_priority := v\<rparr>"

text \<open>\<open>MockTodoEntity.update\<close> and \<open>TodoEntity.update\<close>: the same three lines.\<close>

definition TodoEntity_update :: "TodoEntity \<Rightarrow> field list \<Rightarrow> TodoEntity" where
  "TodoEntity_update self data = fold (\<lambda>item obj. setattr obj item) (dict_pop ''id'' data) self"

text \<open>The list with its first element that satisfies \<open>P\<close> replaced.\<close>

fun update_first :: "('a \<Rightarrow> bool) \<Rightarrow> 'a \<Rightarrow> 'a list \<Rightarrow> 'a list" where
  "update_first P y [] = []"
| "update_first P y (x # xs) = (if P x then y # xs else x # update_first P y xs)"

text \<open>
  \<open>MockTodoService.update_todo\<close> mutates the first entity of the list whose id is
  \<open>todo_id\<close>, in place, and then converts it; the function returns the result and the list
  after the call. An entity is an object and is always true in \<open>if not todo_entity\<close>.
\<close>

definition mock_update_todo ::
  "TodoEntity list \<Rightarrow> string \<Rightarrow> TodoBoundary
     \<Rightarrow> (error + TodoBoundary option) \<times> TodoEntity list" where
  "mock_update_todo todo_dao todo_id todo_boundary =
     (case find (\<lambda>todo. ent_id todo = todo_id) todo_dao of
        None \<Rightarrow> (Inr None, todo_dao)
      | Some todo_entity \<Rightarrow>
          (let updated = TodoEntity_update todo_entity (model_dump todo_boundary)
           in ((case from_entity updated of Inl e \<Rightarrow> Inl e | Inr b \<Rightarrow> Inr (Some b)),
               update_first (\<lambda>todo. ent_id todo = todo_id) updated todo_dao)))"


section \<open>Users\<close>

text \<open>
  \<open>user_boundary.py\<close>, \<open>user_response.py\<close> and \<open>user_entity.py\<close>. The entity's id is the
  column default \<open>uuid4()\<close>, set when the row is inserted: it is \<open>None\<close> before.
\<close>

record UserBoundary =
  ub_id :: string
  ub_username :: string
  ub_email :: string
  ub_first_name :: string
  ub_last_name :: string
  ub_password :: string

record UserEntity =
  ue_id :: "string option"
  ue_username :: string
  ue_email :: string
  ue_first_name :: string
  ue_last_name :: string
  ue_hashed_password :: string

record UserFilteredBoundary =
  uf_id :: string
  uf_username :: string
  uf_email :: string
  uf_first_name :: string
  uf_last_name :: string
  uf_password :: "string option"

text \<open>
  \<open>common/utils/crypt_context.py\<close> is not among the sources: \<open>crypto_ctx\<close> is a parameter,
  a record of its two methods.
\<close>

record CryptContext =
  ctx_hash :: "string \<Rightarrow> string"
  ctx_verify :: "string \<Rightarrow> string \<Rightarrow> bool"

definition UserEntity_from_boundary :: "CryptContext \<Rightarrow> UserBoundary \<Rightarrow> UserEntity" where
  "UserEntity_from_boundary crypto_ctx user_boundary =
     \<lparr>ue_id = None, ue_username = ub_username user_boundary,
      ue_email = ub_email user_boundary, ue_first_name = ub_first_name user_boundary,
      ue_last_name = ub_last_name user_boundary,
      ue_hashed_password = ctx_hash crypto_ctx (ub_password user_boundary)\<rparr>"

text \<open>
  \<open>UserFilteredBoundary.from_entity\<close> builds the view with \<open>password=None\<close>; the
  constructor validates the fields it is given (\<open>EmailStr\<close> is the parameter \<open>email_ok\<close>).
\<close>

definition UserFilteredBoundary_from_entity ::
  "(string \<Rightarrow> bool) \<Rightarrow> UserEntity \<Rightarrow> error + UserFilteredBoundary" where
  "UserFilteredBoundary_from_entity email_ok user_entity =
     (case ue_id user_entity of
        None \<Rightarrow> Inl ValidationError
      | Some i \<Rightarrow>
          if length (ue_username user_entity) < 3 then Inl ValidationError
          else if email_ok (ue_email user_entity) = False then Inl ValidationError
          else if ue_first_name user_entity = [] then Inl ValidationError
          else if ue_last_name user_entity = [] then Inl ValidationError
          else Inr \<lparr>uf_id = i, uf_username = ue_username user_entity,
                    uf_email = ue_email user_entity,
                    uf_first_name = ue_first_name user_entity,
                    uf_last_name = ue_last_name user_entity, uf_password = None\<rparr>)"

text \<open>
  The serialised view: \<open>password\<close> is declared with \<open>Field(exclude=True)\<close> and is left out.
\<close>

definition UserFilteredBoundary_dump :: "UserFilteredBoundary \<Rightarrow> (string \<times> string) list" where
  "UserFilteredBoundary_dump v =
     [(''id'', uf_id v), (''username'', uf_username v), (''email'', uf_email v),
      (''first_name'', uf_first_name v), (''last_name'', uf_last_name v)]"

text \<open>
  \<open>add\<close> and \<open>commit\<close>: the insert fails on a primary key or a unique column that is taken
  (\<open>username\<close>, \<open>email\<close>, \<open>hashed_password\<close>); otherwise the row gets its id and is stored.
\<close>

definition commit_user ::
  "string \<Rightarrow> UserEntity list \<Rightarrow> UserEntity \<Rightarrow> error + UserEntity \<times> UserEntity list" where
  "commit_user uuid4 user_dao user_entity =
     (if Some uuid4 \<in> set (map ue_id user_dao)
         \<or> ue_username user_entity \<in> set (map ue_username user_dao)
         \<or> ue_email user_entity \<in> set (map ue_email user_dao)
         \<or> ue_hashed_password user_entity \<in> set (map ue_hashed_password user_dao)
      then Inl IntegrityError
      else Inr (user_entity\<lparr>ue_id := Some uuid4\<rparr>,
                user_dao @ [user_entity\<lparr>ue_id := Some uuid4\<rparr>]))"

definition UserService_register ::
  "CryptContext \<Rightarrow> string \<Rightarrow> (string \<Rightarrow> bool) \<Rightarrow> UserEntity list \<Rightarrow> UserBoundary
     \<Rightarrow> (error + UserFilteredBoundary) \<times> UserEntity list" where
  "UserService_register crypto_ctx uuid4 email_ok user_dao user_boundary =
     (case commit_user uuid4 user_dao (UserEntity_from_boundary crypto_ctx user_boundary) of
        Inl e \<Rightarrow> (Inl e, user_dao)
      | Inr (user_entity, user_dao') \<Rightarrow>
          (UserFilteredBoundary_from_entity email_ok user_entity, user_dao'))"

section \<open>Tokens and login\<close>

text \<open>
  \<open>create_access_token\<close> copies the claims, sets \<open>exp\<close> to the current time plus the
  lifetime, and signs them. \<open>jwt.encode\<close> with the configured key and algorithm belongs to
  the library \<open>jose\<close> and is the parameter \<open>jwt_encode\<close>; \<open>now\<close> is the clock, in
  microseconds.
\<close>

datatype claim_value = C_str string | C_time int

fun dict_update :: "(string \<times> 'v) list \<Rightarrow> string \<Rightarrow> 'v \<Rightarrow> (string \<times> 'v) list" where
  "dict_update [] k v = [(k, v)]"
| "dict_update ((k', v') # d) k v =
     (if k' = k then (k, v) # d else (k', v') # dict_update d k v)"

definition create_access_token ::
  "((string \<times> claim_value) list \<Rightarrow> string) \<Rightarrow> int \<Rightarrow> (string \<times> claim_value) list \<Rightarrow> int
     \<Rightarrow> string" where
  "create_access_token jwt_encode now data expire_min =
     jwt_encode (dict_update data ''exp'' (C_time (now + expire_min * 60000000)))"

text \<open>
  \<open>user_login.py\<close> and \<open>common/models/token.py\<close> are not among the sources; the records
  hold the fields the service and the controller use.
\<close>

record UserLogin =
  ul_username :: string
  ul_password :: string

record Token =
  access_token :: string

definition UserService_login ::
  "CryptContext \<Rightarrow> ((string \<times> claim_value) list \<Rightarrow> string) \<Rightarrow> int \<Rightarrow> UserEntity list
     \<Rightarrow> UserLogin \<Rightarrow> error + string option" where
  "UserService_login crypto_ctx jwt_encode now user_dao user_login =
     (case one_or_none (filter (\<lambda>u. ue_username u = ul_username user_login) user_dao) of
        Inl e \<Rightarrow> Inl e
      | Inr None \<Rightarrow> Inr None
      | Inr (Some user_entity) \<Rightarrow>
          if ctx_verify crypto_ctx (ul_password user_login) (ue_hashed_password user_entity)
          then Inr (Some (create_access_token jwt_encode now
                            [(''sub'', C_str (ue_username user_entity))] 30))
          else Inr None)"

text \<open>The route \<open>/login\<close>: no token, or an empty one, is status 401.\<close>

definition login ::
  "CryptContext \<Rightarrow> ((string \<times> claim_value) list \<Rightarrow> string) \<Rightarrow> int \<Rightarrow> UserEntity list
     \<Rightarrow> UserLogin \<Rightarrow> error + Token" where
  "login crypto_ctx jwt_encode now user_dao user_login =
     (case UserService_login crypto_ctx jwt_encode now user_dao user_login of
        Inl e \<Rightarrow> Inl e
      | Inr None \<Rightarrow> Inl (HTTPException 401 ''Invalid username or password'')
      | Inr (Some token) \<Rightarrow>
          if token = [] then Inl (HTTPException 401 ''Invalid username or password'')
          else Inr \<lparr>access_token = token\<rparr>)"

text \<open>The route \<open>/login/form\<close> takes FastAPI's \<open>OAuth2PasswordRequestForm\<close>.\<close>

record OAuth2PasswordRequestForm =
  form_grant_type :: "string option"
  form_username :: string
  form_password :: string
  form_scopes :: "string list"
  form_client_id :: "string option"
  form_client_secret :: "string option"

definition form_login ::
  "CryptContext \<Rightarrow> ((string \<times> claim_value) list \<Rightarrow> string) \<Rightarrow> int \<Rightarrow> UserEntity list
     \<Rightarrow> OAuth2PasswordRequestForm \<Rightarrow> error + Token" where
  "form_login crypto_ctx jwt_encode now user_dao form =
     login crypto_ctx jwt_encode now user_dao
       \<lparr>ul_username = form_username form, ul_password = form_password form\<rparr>"

section \<open>Example data\<close>

text \<open>
  The first two tasks of \<open>mock_todo_dao.py\<close> (their ids are random there and fixed
  here), and one more that shares the title of the first.
\<close>

definition todo1 :: TodoEntity where
  "todo1 = \<lparr>ent_id = ''1'', ent_title = ''Complete project report'',
            ent_description = Some ''Finish the quarterly project report'',
            ent_status = ''Pending'', ent_priority = HIGH\<rparr>"

definition todo2 :: TodoEntity where
  "todo2 = \<lparr>ent_id = ''2'', ent_title = ''Buy groceries'',
            ent_description = Some ''Milk, eggs, bread, butter, and vegetables'',
            ent_status = ''In Progress'', ent_priority = MEDIUM\<rparr>"

definition todo4 :: TodoEntity where
  "todo4 = \<lparr>ent_id = ''4'', ent_title = ''Complete project report'',
            ent_description = Some ''Draft the summary'',
            ent_status = ''Pending'', ent_priority = LOW\<rparr>"

text \<open>The boundary with the attributes of an entity, and a page request in ascending order.\<close>

definition boundary_of :: "TodoEntity \<Rightarrow> TodoBoundary" where
  "boundary_of e =
     \<lparr>b_id = ent_id e, b_title = ent_title e, b_description = ent_description e,
      b_status = ent_status e, b_priority = ent_priority e\<rparr>"

definition page_of :: "int \<Rightarrow> int \<Rightarrow> OrderBy \<Rightarrow> Pagination" where
  "page_of n k ob = \<lparr>page = n, page_size = k, order_by = ob, desc = False\<rparr>"

definition search_of :: "AttributeTypes \<Rightarrow> string \<Rightarrow> int \<Rightarrow> int \<Rightarrow> SearchByPagination" where
  "search_of t v n k =
     \<lparr>page = n, page_size = k, order_by = title, desc = False, search_type = t,
      search_value = v\<rparr>"

text \<open>A request body that gives an id and the title \<open>X\<close>, and the boundary it validates to.\<close>

definition title_payload :: TodoPayload where
  "title_payload =
     \<lparr>pl_id = Some ''ignored'', pl_title = Some ''X'', pl_description = None,
      pl_status = None, pl_priority = None\<rparr>"

definition title_boundary :: TodoBoundary where
  "title_boundary =
     \<lparr>b_id = ''ignored'', b_title = ''X'', b_description = Some [],
      b_status = ''Pending'', b_priority = LOW\<rparr>"



text \<open>A password context, a token encoder and a stored user for the user service.\<close>

definition example_ctx :: CryptContext where
  "example_ctx = \<lparr>ctx_hash = (\<lambda>raw. ''$'' @ raw), ctx_verify = (\<lambda>raw hashed. hashed = ''$'' @ raw)\<rparr>"

definition example_encode :: "(string \<times> claim_value) list \<Rightarrow> string" where
  "example_encode claims = ''jwt:'' @ concat (map fst claims)"

definition alice :: UserEntity where
  "alice = \<lparr>ue_id = Some ''u1'', ue_username = ''alice'', ue_email = ''alice@example.com'',
            ue_first_name = ''Alice'', ue_last_name = ''Liddell'',
            ue_hashed_password = ''$secret''\<rparr>"

definition bob_boundary :: UserBoundary where
  "bob_boundary = \<lparr>ub_id = [], ub_username = ''bob'', ub_email = ''bob@example.com'',
                    ub_first_name = ''Bob'', ub_last_name = ''Builder'',
                    ub_password = ''hunter2''\<rparr>"

text \<open>The login form of \<open>alice\<close> with a given password.\<close>

definition alice_form :: "string \<Rightarrow> OAuth2PasswordRequestForm" where
  "alice_form pw =
     \<lparr>form_grant_type = Some ''password'', form_username = ''alice'', form_password = pw,
      form_scopes = [], form_client_id = None, form_client_secret = None\<rparr>"

section \<open>Listing and searching\<close>

text \<open>
  C1. The pages of \<open>get_all_todos\<close> for page 1, 2, ... are to give the collection sorted by
  the \<open>order_by\<close> field. \<open>MockTodoService.get_all_todos\<close> takes the slice of the stored list
  first and sorts only that slice. With the two stored tasks "Complete project report" and
  "Buy groceries" and pages of size 1 by title, its page 1 is "Complete project report" and
  its page 2 "Buy groceries": the pages in order are the insertion order, not the sorted
  one. \<open>TodoService.get_all_todos\<close> orders before it skips and limits, and its pages are
  "Buy groceries", then "Complete project report".
\<close>

theorem mock_get_all_todos_pages_unsorted:
  "mock_get_all_todos [todo1, todo2] (page_of 1 1 title) = Inr [boundary_of todo1]
   \<and> mock_get_all_todos [todo1, todo2] (page_of 2 1 title) = Inr [boundary_of todo2]
   \<and> mock_get_all_todos [todo1, todo2] (page_of 1 2 title)
       = Inr [boundary_of todo2, boundary_of todo1]
   \<and> get_all_todos [todo1, todo2] (page_of 1 1 title) = Inr [boundary_of todo2]
   \<and> get_all_todos [todo1, todo2] (page_of 2 1 title) = Inr [boundary_of todo1]"
  by (simp add: mock_get_all_todos_def get_all_todos_def sql_select_def sorted_py_def
      stable_sort_def py_slice_def slice_index_def offset_def page_of_def from_entity_def
      todo1_def todo2_def boundary_of_def)

text \<open>
  C2. The mock and the durable search by title are to return the same records in the same
  order. For two stored tasks with the title "Complete project report", page 1 of size 1
  by description is the first one stored ("Finish ...") in the mock service, which slices
  the matches before it sorts, and the one with the least description ("Draft ...") in
  the durable service.
\<close>

theorem get_todo_by_title_mock_differs:
  "mock_get_todo_by_title [todo1, todo4] ''Complete project report'' (page_of 1 1 description)
     = Inr [boundary_of todo1]
   \<and> get_todo_by_title [todo1, todo4] ''Complete project report'' (page_of 1 1 description)
     = Inr [boundary_of todo4]
   \<and> boundary_of todo1 \<noteq> boundary_of todo4"
  by (simp add: mock_get_todo_by_title_def get_todo_by_title_def sql_select_def sorted_py_def
      stable_sort_def py_slice_def slice_index_def offset_def page_of_def from_entity_def
      todo1_def todo4_def boundary_of_def)

text \<open>
  C3. A search by id is to return the task with that id, whatever the pagination. The
  controller passes the pagination to the method as a positional argument.
  \<open>TodoService.get_todo_by_id\<close> takes it in \<open>*args\<close> and returns the task;
  \<open>MockTodoService.get_todo_by_id\<close> declares no such parameter, and the call raises
  \<open>TypeError\<close> for a stored id and for every pagination.
\<close>

theorem mock_search_by_id_raises:
  "get_todo_by_attribute True native_enum [todo1] (search_of ID ''1'' 1 1) = Inl TypeError
   \<and> get_todo_by_attribute True native_enum [todo1] (search_of ID ''1'' 99 999) = Inl TypeError
   \<and> get_todo_by_attribute False native_enum [todo1] (search_of ID ''1'' 1 1)
       = Inr (One (boundary_of todo1))
   \<and> get_todo_by_attribute False native_enum [todo1] (search_of ID ''1'' 99 999)
       = Inr (One (boundary_of todo1))"
  by (simp add: get_todo_by_attribute_def call_method_def mock_get_todo_by_id_def
      get_todo_by_id_def from_entity_def search_of_def todo1_def boundary_of_def)

text \<open>
  C4. A search by priority is to parse the value without regard to case and to fail on a
  value that is no priority. \<open>MockTodoService.get_todo_by_priority\<close> does both.
  \<open>TodoService.get_todo_by_priority\<close> compares the column with the string as given: with
  one stored HIGH task, "HIGH" finds it; on a character column "high" finds nothing and
  "urgent" is an empty result and no error; on a native enum column both fail with
  \<open>DataError\<close>, which is no \<open>ValueError\<close> and leaves the controller uncaught, where the
  mock service's \<open>ValueError\<close> becomes status 400.
\<close>

theorem get_todo_by_priority_not_parsed:
  "get_todo_by_priority False [todo1] ''HIGH'' (page_of 1 10 title) = Inr [boundary_of todo1]
   \<and> get_todo_by_priority False [todo1] ''high'' (page_of 1 10 title) = Inr []
   \<and> get_todo_by_priority False [todo1] ''urgent'' (page_of 1 10 title) = Inr []
   \<and> get_todo_by_priority True [todo1] ''HIGH'' (page_of 1 10 title) = Inr [boundary_of todo1]
   \<and> get_todo_by_priority True [todo1] ''high'' (page_of 1 10 title) = Inl DataError
   \<and> get_todo_by_priority True [todo1] ''urgent'' (page_of 1 10 title) = Inl DataError
   \<and> get_todo_by_attribute False True [todo1] (search_of PRIORITY ''urgent'' 1 10)
       = Inl DataError
   \<and> get_todo_by_attribute False False [todo1] (search_of PRIORITY ''urgent'' 1 10)
       = Inr (Many [])
   \<and> get_todo_by_attribute True native_enum [todo1] (search_of PRIORITY ''urgent'' 1 10)
       = Inl (HTTPException 400
                (''Invalid input for attribute value: urgent. '' @ priority_message))
   \<and> mock_get_todo_by_priority [todo1] ''HIGH'' (page_of 1 10 title) = Inr [boundary_of todo1]
   \<and> mock_get_todo_by_priority [todo1] ''high'' (page_of 1 10 title) = Inr [boundary_of todo1]
   \<and> mock_get_todo_by_priority [todo1] ''urgent'' (page_of 1 10 title)
       = Inl (ValueError priority_message)"
  by (simp add: get_todo_by_priority_def mock_get_todo_by_priority_def Priority_of_value_def
      get_todo_by_attribute_def call_method_def search_of_def
      upper_def upper_char_def sql_select_def sorted_py_def stable_sort_def py_slice_def
      slice_index_def offset_def page_of_def from_entity_def todo1_def boundary_of_def)

section \<open>Updating a task: what changes and what does not\<close>

text \<open>The effect of \<open>update\<close> on an entity, and of replacing an element on the ids of a list.\<close>

lemma TodoEntity_update_model_dump:
  "TodoEntity_update e (model_dump b) =
     e\<lparr>ent_title := b_title b, ent_description := b_description b,
       ent_status := b_status b, ent_priority := b_priority b\<rparr>"
  by (simp add: TodoEntity_update_def model_dump_def dict_pop_def)






lemma update_first_none:
  "find P xs = None \<Longrightarrow> update_first P y xs = xs"
  by (induction xs) (simp_all split: if_splits)

lemma update_first_split:
  "find P xs = Some e \<Longrightarrow>
     \<exists>pre post. xs = pre @ e # post \<and> list_all (\<lambda>x. P x = False) pre
        \<and> update_first P y xs = pre @ y # post"
proof (induction xs)
  case Nil
  then show ?case by simp
next
  case (Cons x xs)
  show ?case
  proof (cases "P x")
    case True
    with Cons.prems have "x = e" by simp
    with True show ?thesis by (intro exI[of _ "[]"] exI[of _ xs]) simp
  next
    case False
    with Cons.prems have "find P xs = Some e" by simp
    from Cons.IH[OF this] obtain pre post where
      "xs = pre @ e # post" "list_all (\<lambda>x. P x = False) pre" "update_first P y xs = pre @ y # post"
      by blast
    with False show ?thesis by (intro exI[of _ "x # pre"] exI[of _ post]) simp
  qed
qed


lemma one_or_none_None: "one_or_none xs = Inr None \<Longrightarrow> xs = []"
  by (cases xs rule: one_or_none.cases) simp_all






text \<open>
  C5, as stated: an update whose payload sets the title to \<open>X\<close> changes only the title.
  The body must hold an id and a title; validation gives the fields it leaves out their
  defaults, and \<open>update_todo\<close> writes all of them. For the stored task "Buy groceries"
  (status "In Progress", priority MEDIUM) the record after the update has the empty
  description, the status "Pending" and the priority LOW.
\<close>

theorem mock_update_todo_title_only_counterexample:
  "TodoBoundary_validate title_payload = Inr title_boundary
   \<and> snd (mock_update_todo [todo1, todo2] ''2'' title_boundary) =
       [todo1, \<lparr>ent_id = ''2'', ent_title = ''X'', ent_description = Some [],
                ent_status = ''Pending'', ent_priority = LOW\<rparr>]
   \<and> snd (mock_update_todo [todo1, todo2] ''2'' title_boundary)
       \<noteq> [todo1, todo2\<lparr>ent_title := ''X''\<rparr>]"
  by (simp add: TodoBoundary_validate_def title_payload_def title_boundary_def
      mock_update_todo_def Let_def TodoEntity_update_def model_dump_def dict_pop_def
      todo1_def todo2_def)

text \<open>
  C5, amended: for the first stored task with the id, \<open>update_todo\<close> sets title,
  description, status and priority to the values of the boundary and keeps the id; for a
  body that holds only an id and the title \<open>X\<close> these values are \<open>X\<close>, the empty
  description, "Pending" and LOW.
\<close>

theorem mock_update_todo_overwrites:
  "find (\<lambda>todo. ent_id todo = todo_id) todo_dao = Some e \<longrightarrow>
     snd (mock_update_todo todo_dao todo_id b) =
       update_first (\<lambda>todo. ent_id todo = todo_id)
         (e\<lparr>ent_title := b_title b, ent_description := b_description b,
            ent_status := b_status b, ent_priority := b_priority b\<rparr>) todo_dao
     \<and> (TodoBoundary_validate
           \<lparr>pl_id = Some i, pl_title = Some X, pl_description = None, pl_status = None,
            pl_priority = None\<rparr> = Inr b \<longrightarrow>
         snd (mock_update_todo todo_dao todo_id b) =
           update_first (\<lambda>todo. ent_id todo = todo_id)
             (e\<lparr>ent_title := X, ent_description := Some [], ent_status := ''Pending'',
                ent_priority := LOW\<rparr>) todo_dao)"
  by (auto simp add: mock_update_todo_def Let_def TodoEntity_update_model_dump
      TodoBoundary_validate_def split: if_splits)

theorem mock_update_todo_overwrites_witness:
  "find (\<lambda>todo. ent_id todo = ''2'') [todo1, todo2] = Some todo2
   \<and> TodoBoundary_validate
       \<lparr>pl_id = Some ''ignored'', pl_title = Some ''X'', pl_description = None, pl_status = None,
        pl_priority = None\<rparr> = Inr title_boundary
   \<and> snd (mock_update_todo [todo1, todo2] ''2'' title_boundary) =
       [todo1, todo2\<lparr>ent_title := ''X'', ent_description := Some [], ent_status := ''Pending'',
                    ent_priority := LOW\<rparr>]"
  using mock_update_todo_overwrites [of "''2''" "[todo1, todo2]" todo2 title_boundary "''ignored''" "''X''"]
  by (simp add: todo1_def todo2_def title_boundary_def TodoBoundary_validate_def)




section \<open>The pages of the listings\<close>

text \<open>
  In the durable service the pages 1 to \<open>n\<close> of size \<open>k\<close>, in order, are the first
  \<open>n * k\<close> rows of the ordered selection, and a page has at most \<open>k\<close> rows.
\<close>

lemma concat_pages:
  "concat (map (\<lambda>i. take k (drop (i * k) xs)) [0..<n]) = take (n * k) xs"
proof (induction n)
  case 0
  then show ?case by simp
next
  case (Suc n)
  have "Suc n * k = n * k + k" by simp
  then have "take (Suc n * k) xs = take (n * k) xs @ take k (drop (n * k) xs)"
    by (simp only: take_add)
  with Suc show ?case by simp
qed

lemma offset_page_of: "offset (page_of (int i + 1) (int k) ob) = int (i * k)"
  by (simp add: offset_def page_of_def)

lemma sql_select_page:
  "sql_select w ob d (offset (page_of (int i + 1) (int k) ob)) (int k) rows
     = take k (drop (i * k) (stable_sort (\<lambda>row. getattr row ob) d (filter w rows)))"
proof -
  have "nat (offset (page_of (int i + 1) (int k) ob)) = i * k"
    by (simp add: offset_page_of del: of_nat_mult)
  then show ?thesis by (simp add: sql_select_def)
qed

lemma sql_select_pages:
  "concat (map (\<lambda>i. sql_select w ob d (offset (page_of (int i + 1) (int k) ob)) (int k) rows)
             [0..<n])
     = take (n * k) (stable_sort (\<lambda>row. getattr row ob) d (filter w rows))"
  unfolding sql_select_page by (rule concat_pages)

lemma length_sql_select: "0 \<le> lim \<Longrightarrow> int (length (sql_select w ob d off lim rows)) \<le> lim"
  by (simp add: sql_select_def)

text \<open>
  In the mock service a page is the sorted slice of the stored list: the slices of the
  pages 1 to \<open>n\<close>, in order, are the first \<open>n * k\<close> stored tasks in insertion order, and
  a page has at most \<open>k\<close> records.
\<close>

lemma length_map_result: "map_result f xs = Inr ys \<Longrightarrow> length ys = length xs"
  by (induction xs arbitrary: ys) (auto split: sum.splits)

lemma length_sorted_py: "sorted_py key r xs = Inr ys \<Longrightarrow> length ys = length xs"
  by (auto simp add: sorted_py_def stable_sort_def split: if_splits)

lemma py_slice_page:
  "py_slice xs (offset (page_of (int i + 1) (int k) ob))
       (offset (page_of (int i + 1) (int k) ob) + page_size (page_of (int i + 1) (int k) ob))
     = take k (drop (i * k) xs)"
proof -
  have o: "offset (page_of (int i + 1) (int k) ob) = int (i * k)"
    by (simp add: offset_def page_of_def)
  have s: "page_size (page_of (int i + 1) (int k) ob) = int k"
    by (simp add: page_of_def)
  have "int (i * k) + int k = int (i * k + k)" by simp
  then show ?thesis
    unfolding o s py_slice_def slice_index_def Let_def
    by (simp only: nat_int of_nat_less_0_iff if_False) (auto simp add: min_def)
qed

lemma py_slice_pages:
  "concat (map (\<lambda>i. py_slice xs (offset (page_of (int i + 1) (int k) ob))
                       (offset (page_of (int i + 1) (int k) ob)
                          + page_size (page_of (int i + 1) (int k) ob))) [0..<n])
     = take (n * k) xs"
  unfolding py_slice_page by (rule concat_pages)

lemma mock_get_all_todos_length:
  assumes "mock_get_all_todos todo_dao (page_of (int i + 1) (int k) ob) = Inr bs"
  shows "length bs \<le> k"
proof -
  from assms obtain es where
    es: "sorted_py (\<lambda>obj. getattr obj ob) False (take k (drop (i * k) todo_dao)) = Inr es"
    and bs: "map_result from_entity es = Inr bs"
    unfolding mock_get_all_todos_def py_slice_page
    by (auto simp add: page_of_def split: sum.splits)
  from es have "length es = length (take k (drop (i * k) todo_dao))" by (rule length_sorted_py)
  moreover from bs have "length bs = length es" by (rule length_map_result)
  ultimately show ?thesis by simp
qed

section \<open>Login and registration\<close>

text \<open>
  C7. A login with a username that is not stored and a login with a stored username whose
  password does not verify have the same outcome: the service returns \<open>None\<close> for both,
  and the route raises the same 401 with the same detail for both.
\<close>

theorem login_failures_indistinguishable:
  assumes "filter (\<lambda>u. ue_username u = ul_username unknown) user_dao = []"
      and "filter (\<lambda>u. ue_username u = ul_username wrong) user_dao = [user_entity]"
      and "ctx_verify crypto_ctx (ul_password wrong) (ue_hashed_password user_entity) = False"
  shows "UserService_login crypto_ctx jwt_encode now user_dao unknown = Inr None
       \<and> UserService_login crypto_ctx jwt_encode now user_dao wrong = Inr None
       \<and> login crypto_ctx jwt_encode now user_dao unknown
           = Inl (HTTPException 401 ''Invalid username or password'')
       \<and> login crypto_ctx jwt_encode now user_dao wrong
           = login crypto_ctx jwt_encode now user_dao unknown"
  using assms by (simp add: UserService_login_def login_def)

theorem login_failures_indistinguishable_witness:
  "filter (\<lambda>u. ue_username u = ''nosuchuser'') [alice] = []
   \<and> filter (\<lambda>u. ue_username u = ''alice'') [alice] = [alice]
   \<and> ctx_verify example_ctx ''wrongpass'' (ue_hashed_password alice) = False
   \<and> login example_ctx example_encode 0 [alice]
        \<lparr>ul_username = ''nosuchuser'', ul_password = ''anything''\<rparr>
       = Inl (HTTPException 401 ''Invalid username or password'')
   \<and> login example_ctx example_encode 0 [alice]
        \<lparr>ul_username = ''alice'', ul_password = ''wrongpass''\<rparr>
       = Inl (HTTPException 401 ''Invalid username or password'')
   \<and> login example_ctx example_encode 0 [alice]
        \<lparr>ul_username = ''alice'', ul_password = ''secret''\<rparr>
       = Inr \<lparr>access_token = ''jwt:subexp''\<rparr>"
  using login_failures_indistinguishable [of
      "\<lparr>ul_username = ''nosuchuser'', ul_password = ''anything''\<rparr>" "[alice]"
      "\<lparr>ul_username = ''alice'', ul_password = ''wrongpass''\<rparr>" alice example_ctx
      example_encode 0]
  by (simp add: alice_def example_ctx_def example_encode_def login_def UserService_login_def
      create_access_token_def)

text \<open>
  C9. \<open>register\<close> stores at most one new row, whose \<open>hashed_password\<close> is what
  \<open>crypto_ctx.hash\<close> returns for the raw password and whose other fields are the
  boundary's username, email and names; the view it returns has the password \<open>None\<close>,
  and the serialised view has no \<open>password\<close> key.
\<close>

theorem register_stores_hash_only:
  assumes "UserService_register crypto_ctx uuid4 email_ok user_dao user_boundary = (r, user_dao')"
  shows "(user_dao' = user_dao
          \<or> user_dao' = user_dao @
               [\<lparr>ue_id = Some uuid4, ue_username = ub_username user_boundary,
                 ue_email = ub_email user_boundary,
                 ue_first_name = ub_first_name user_boundary,
                 ue_last_name = ub_last_name user_boundary,
                 ue_hashed_password = ctx_hash crypto_ctx (ub_password user_boundary)\<rparr>])
       \<and> (\<forall>v. r = Inr v \<longrightarrow>
             user_dao' = user_dao @
               [\<lparr>ue_id = Some uuid4, ue_username = ub_username user_boundary,
                 ue_email = ub_email user_boundary,
                 ue_first_name = ub_first_name user_boundary,
                 ue_last_name = ub_last_name user_boundary,
                 ue_hashed_password = ctx_hash crypto_ctx (ub_password user_boundary)\<rparr>]
             \<and> uf_password v = None
             \<and> ''password'' \<notin> fst ` set (UserFilteredBoundary_dump v)
             \<and> UserFilteredBoundary_dump v =
                 [(''id'', uuid4), (''username'', ub_username user_boundary),
                  (''email'', ub_email user_boundary),
                  (''first_name'', ub_first_name user_boundary),
                  (''last_name'', ub_last_name user_boundary)])"
  using assms
  by (auto simp add: UserService_register_def commit_user_def UserEntity_from_boundary_def
      UserFilteredBoundary_from_entity_def UserFilteredBoundary_dump_def
      split: if_splits sum.splits option.splits)

theorem register_stores_hash_only_witness:
  "UserService_register example_ctx ''u2'' (\<lambda>e. True) [alice] bob_boundary =
     (Inr \<lparr>uf_id = ''u2'', uf_username = ''bob'', uf_email = ''bob@example.com'',
           uf_first_name = ''Bob'', uf_last_name = ''Builder'', uf_password = None\<rparr>,
      [alice,
       \<lparr>ue_id = Some ''u2'', ue_username = ''bob'', ue_email = ''bob@example.com'',
        ue_first_name = ''Bob'', ue_last_name = ''Builder'',
        ue_hashed_password = ''$hunter2''\<rparr>])
   \<and> UserFilteredBoundary_dump
       \<lparr>uf_id = ''u2'', uf_username = ''bob'', uf_email = ''bob@example.com'',
        uf_first_name = ''Bob'', uf_last_name = ''Builder'', uf_password = None\<rparr>
     = [(''id'', ''u2''), (''username'', ''bob''), (''email'', ''bob@example.com''),
        (''first_name'', ''Bob''), (''last_name'', ''Builder'')]"
  using register_stores_hash_only [of example_ctx "''u2''" "\<lambda>e. True" "[alice]" bob_boundary
      "Inr \<lparr>uf_id = ''u2'', uf_username = ''bob'', uf_email = ''bob@example.com'',
           uf_first_name = ''Bob'', uf_last_name = ''Builder'', uf_password = None\<rparr>"
      "[alice,
       \<lparr>ue_id = Some ''u2'', ue_username = ''bob'', ue_email = ''bob@example.com'',
        ue_first_name = ''Bob'', ue_last_name = ''Builder'',
        ue_hashed_password = ''$hunter2''\<rparr>]"]
  by (simp add: UserService_register_def commit_user_def UserEntity_from_boundary_def
      UserFilteredBoundary_from_entity_def UserFilteredBoundary_dump_def alice_def
      bob_boundary_def example_ctx_def)

text \<open>
  C10. The form route gives the outcome of the JSON route for the same username and
  password: the same token, or the same failure.
\<close>

theorem form_login_same_as_login:
  "form_login crypto_ctx jwt_encode now user_dao form
     = login crypto_ctx jwt_encode now user_dao
         \<lparr>ul_username = form_username form, ul_password = form_password form\<rparr>
   \<and> (ul_username user_login = form_username form \<longrightarrow>
       ul_password user_login = form_password form \<longrightarrow>
       form_login crypto_ctx jwt_encode now user_dao form
         = login crypto_ctx jwt_encode now user_dao user_login)"
proof (intro conjI impI)
  show "form_login crypto_ctx jwt_encode now user_dao form
     = login crypto_ctx jwt_encode now user_dao
         \<lparr>ul_username = form_username form, ul_password = form_password form\<rparr>"
    by (simp add: form_login_def)
next
  assume "ul_username user_login = form_username form"
    and "ul_password user_login = form_password form"
  then have "user_login = \<lparr>ul_username = form_username form, ul_password = form_password form\<rparr>"
    by (cases user_login) simp
  then show "form_login crypto_ctx jwt_encode now user_dao form
         = login crypto_ctx jwt_encode now user_dao user_login"
    by (simp add: form_login_def)
qed

theorem form_login_same_as_login_witness:
  "form_login example_ctx example_encode 0 [alice] (alice_form ''secret'')
     = Inr \<lparr>access_token = ''jwt:subexp''\<rparr>
   \<and> login example_ctx example_encode 0 [alice]
        \<lparr>ul_username = ''alice'', ul_password = ''secret''\<rparr>
     = Inr \<lparr>access_token = ''jwt:subexp''\<rparr>
   \<and> form_login example_ctx example_encode 0 [alice] (alice_form ''wrongpass'')
     = Inl (HTTPException 401 ''Invalid username or password'')
   \<and> login example_ctx example_encode 0 [alice]
        \<lparr>ul_username = ''alice'', ul_password = ''wrongpass''\<rparr>
     = Inl (HTTPException 401 ''Invalid username or password'')"
  using form_login_same_as_login [of example_ctx example_encode 0 "[alice]"
      "alice_form ''secret''" "\<lparr>ul_username = ''alice'', ul_password = ''secret''\<rparr>"]
  by (simp add: form_login_def login_def UserService_login_def create_access_token_def
      alice_form_def alice_def example_ctx_def example_encode_def)

end
